theory Spec2Isabelle
  imports Main "HOL-Library.Word"
begin

unbundle bit_operations_syntax

section \<open>Data model\<close>

text \<open>
  Go's \<open>[]byte\<close> and \<open>string\<close> are both sequences of bytes; Isabelle's \<open>char\<close> is a
  byte, so both are \<open>string\<close> here. Go's \<open>int\<close> is taken as the 64-bit signed integer
  of the usual server platforms.
\<close>

type_synonym bytes = string
type_synonym goint = "64 word"

text \<open>
  \<open>Error s\<close> is a value made by \<open>errors.New(s)\<close>. The other two are the run-time panics
  of a nil pointer dereference and of an array index out of range.
\<close>

datatype error = Error string | NilPanic | IndexPanic

text \<open>A channel variable is either nil (the zero value) or was made with \<open>make\<close>.\<close>

datatype chan = NilChan | MadeChan

text \<open>
  \<open>User\<close> (util.go). \<open>Pipe\<close> is the sequence of payloads that senders have put on the
  user's channel, oldest first. \<open>Writer\<close> and \<open>Request\<close> are kept only as far as the code
  reads them: whether the writer is an \<open>http.Flusher\<close>.
\<close>

record User =
  Pipe :: "bytes list"
  UserStop :: chan
  IP :: string
  UserId :: goint
  UserConvoId :: string
  Flusher :: bool

text \<open>
  \<open>Convo\<close> (convo.go). \<open>Users\<close> is the array \<open>[2]*User\<close>, \<open>None\<close> being nil. A lookup in
  \<open>Messages\<close> that Go answers with nil is \<open>None\<close>: the stored payloads are the non-nil
  slices that \<open>ioutil.ReadAll\<close> returns to the PUT handler.
\<close>

record Convo =
  ConvoId :: string
  Users :: "User option \<times> User option"
  Messages :: "string \<rightharpoonup> bytes"

text \<open>
  \<open>Room\<close> (the registry). \<open>Pings\<close> is the set of conversation ids whose \<open>Ping\<close>
  goroutine is running: \<open>CreateConvo\<close> starts it and a send on the conversation's
  \<open>Stop\<close> channel ends it. The mutex is not part of the state: every operation below
  is one critical section and is modelled as one atomic step.
\<close>

record Room =
  Convos :: "string \<rightharpoonup> Convo"
  Pings :: "string set"

section \<open>util.go\<close>

definition OtherUserId :: "goint \<Rightarrow> goint" where
  "OtherUserId userId = (NOT userId) + 2"

definition Write :: "User \<Rightarrow> bytes \<Rightarrow> User" where
  "Write u data = u\<lparr>Pipe := Pipe u @ [data]\<rparr>"

text \<open>
  \<open>NewId\<close>: the 32-bit FNV-1a hash of the marshalled current time followed by the salt,
  printed in decimal. The clock is outside the program, so the result of
  \<open>time.Now().MarshalBinary()\<close> is the argument \<open>now\<close>.
\<close>

definition fnv32a :: "bytes \<Rightarrow> 32 word" where
  "fnv32a bs = foldl (\<lambda>h b. (h XOR of_nat (of_char b)) * 16777619) 2166136261 bs"

definition digit :: "nat \<Rightarrow> char" where
  "digit d = ''0123456789'' ! d"

function decimal :: "nat \<Rightarrow> string" where
  "decimal n = (if n < 10 then [digit n] else decimal (n div 10) @ [digit (n mod 10)])"
  by pat_completeness auto
termination
  by (relation "measure (\<lambda>n. n)") auto

declare decimal.simps [simp del]

definition NewId :: "error + bytes \<Rightarrow> bytes \<Rightarrow> error + string" where
  "NewId now data =
     (case now of
        Inl err \<Rightarrow> Inl err
      | Inr t \<Rightarrow> Inr (decimal (unat (fnv32a (t @ data)))))"

section \<open>convo.go\<close>


definition Broadcast :: "Convo \<Rightarrow> bytes \<Rightarrow> error option \<times> Convo" where
  "Broadcast c data =
     (if fst (Users c) = None \<and> snd (Users c) = None
      then (Some (Error ''no users in conversation''), c)
      else
        let c1 = (case fst (Users c) of
                    None \<Rightarrow> c
                  | Some u \<Rightarrow> c\<lparr>Users := (Some (Write u data), snd (Users c))\<rparr>);
            c2 = (case snd (Users c1) of
                    None \<Rightarrow> c1
                  | Some u \<Rightarrow> c1\<lparr>Users := (fst (Users c1), Some (Write u data))\<rparr>)
        in (None, c2))"

definition CreateMessage :: "error + bytes \<Rightarrow> Convo \<Rightarrow> bytes \<Rightarrow> (error + string) \<times> Convo" where
  "CreateMessage now c data =
     (case NewId now data of
        Inl err \<Rightarrow> (Inl err, c)
      | Inr messageId \<Rightarrow>
          (if Messages c messageId \<noteq> None
           then (Inl (Error ''message id overwrite''), c)
           else (Inr messageId, c\<lparr>Messages := (Messages c)(messageId \<mapsto> data)\<rparr>)))"

text \<open>\<open>Convo.ReadMessage\<close>: the map lookup; \<open>None\<close> is Go's nil slice.\<close>

definition ReadMessage :: "Convo \<Rightarrow> string \<Rightarrow> bytes option" where
  "ReadMessage c messageId = Messages c messageId"

text \<open>
  The closure \<open>notify\<close> of \<open>AddMessage\<close>; \<open>url\<close> is the global \<open>URL\<close>, which \<open>main\<close>
  sets once at start.
\<close>

definition notify :: "string \<Rightarrow> Convo \<Rightarrow> string \<Rightarrow> string \<Rightarrow> User \<Rightarrow> User" where
  "notify url c ip messageId user =
     (let self = (if IP user \<noteq> ip then ''+ '' else ''  '')
      in Write user (self @ url @ ConvoId c @ ''/'' @ messageId))"

definition AddMessage :: "string \<Rightarrow> error + bytes \<Rightarrow> Convo \<Rightarrow> bytes \<Rightarrow> string \<Rightarrow> error option \<times> Convo" where
  "AddMessage url now c data ip =
     (case CreateMessage now c data of
        (Inl err, c') \<Rightarrow> (Some err, c')
      | (Inr messageId, c') \<Rightarrow>
          let c1 = (case fst (Users c') of
                      None \<Rightarrow> c'
                    | Some u \<Rightarrow> c'\<lparr>Users := (Some (notify url c' ip messageId u), snd (Users c'))\<rparr>);
              c2 = (case snd (Users c1) of
                      None \<Rightarrow> c1
                    | Some u \<Rightarrow> c1\<lparr>Users := (fst (Users c1), Some (notify url c1 ip messageId u))\<rparr>)
          in (None, c2))"

section \<open>The registry\<close>

text \<open>
  The methods of \<open>Room\<close>. \<open>r.Convos[convoId]\<close> of an absent id is a nil pointer, and
  reading a field through it panics; so does reading a field of a nil user, and an
  index other than 0 and 1 into \<open>Users\<close>.
\<close>

definition slot :: "Convo \<Rightarrow> goint \<Rightarrow> error + User option" where
  "slot c i =
     (if i = 0 then Inr (fst (Users c))
      else if i = 1 then Inr (snd (Users c))
      else Inl IndexPanic)"

definition set_slot :: "Convo \<Rightarrow> goint \<Rightarrow> User option \<Rightarrow> Convo" where
  "set_slot c i u =
     (if i = 0 then c\<lparr>Users := (u, snd (Users c))\<rparr>
      else if i = 1 then c\<lparr>Users := (fst (Users c), u)\<rparr>
      else c)"

definition IPExists :: "Room \<Rightarrow> string \<Rightarrow> string \<Rightarrow> error + bool" where
  "IPExists r convoId ip =
     (case Convos r convoId of
        None \<Rightarrow> Inl NilPanic
      | Some c \<Rightarrow>
          (if fst (Users c) \<noteq> None \<and> IP (the (fst (Users c))) = ip then Inr True
           else if snd (Users c) \<noteq> None \<and> IP (the (snd (Users c))) = ip then Inr True
           else Inr False))"

definition OtherUser :: "Room \<Rightarrow> string \<Rightarrow> goint \<Rightarrow> error + bytes" where
  "OtherUser r convoId userId =
     (case Convos r convoId of
        None \<Rightarrow> Inl NilPanic
      | Some c \<Rightarrow>
          (case slot c (OtherUserId userId) of
             Inl err \<Rightarrow> Inl err
           | Inr None \<Rightarrow> Inl NilPanic
           | Inr (Some u) \<Rightarrow> Inr (''> '' @ IP u)))"

text \<open>
  \<open>DeleteUser\<close>. The send on the conversation's \<open>Stop\<close> channel ends its \<open>Ping\<close>
  goroutine. All panics come from the first statement, before anything is changed.
\<close>

definition DeleteUser :: "Room \<Rightarrow> string \<Rightarrow> goint \<Rightarrow> error option \<times> Room" where
  "DeleteUser r convoId userId =
     (case Convos r convoId of
        None \<Rightarrow> (Some NilPanic, r)
      | Some c \<Rightarrow>
          (case slot c userId of
             Inl err \<Rightarrow> (Some err, r)
           | Inr None \<Rightarrow> (Some NilPanic, r)
           | Inr (Some u) \<Rightarrow>
               let ip = IP u;
                   c1 = set_slot c userId None
               in if fst (Users c1) = None \<and> snd (Users c1) = None
                  then (None, r\<lparr>Convos := (Convos r)(convoId := None),
                                 Pings := Pings r - {convoId}\<rparr>)
                  else
                    (case slot c1 (OtherUserId userId) of
                       Inl err \<Rightarrow> (Some err, r\<lparr>Convos := (Convos r)(convoId \<mapsto> c1)\<rparr>)
                     | Inr None \<Rightarrow> (Some NilPanic, r\<lparr>Convos := (Convos r)(convoId \<mapsto> c1)\<rparr>)
                     | Inr (Some other) \<Rightarrow>
                         (None, r\<lparr>Convos := (Convos r)(convoId \<mapsto>
                            set_slot c1 (OtherUserId userId) (Some (Write other (''< '' @ ip))))\<rparr>))))"

text \<open>
  \<open>Room.ReadMessage\<close>. The result is \<open>([]byte, error)\<close>: \<open>Inl\<close> an error or a
  panic, \<open>Inr\<close> the slice (\<open>None\<close> being nil) with a nil error. The deferred function
  deletes the key after the result has been computed, on both return paths. The error
  of \<open>Broadcast\<close> is dropped, as in the source.
\<close>

definition Room_ReadMessage :: "string \<Rightarrow> Room \<Rightarrow> string \<Rightarrow> string \<Rightarrow> (error + bytes option) \<times> Room" where
  "Room_ReadMessage url r convoId messageId =
     (case Convos r convoId of
        None \<Rightarrow> (Inl NilPanic, r)
      | Some c \<Rightarrow>
          (if ReadMessage c messageId = None
           then (Inl (Error ''message doesn't exist''),
                 r\<lparr>Convos := (Convos r)(convoId \<mapsto> c\<lparr>Messages := (Messages c)(messageId := None)\<rparr>)\<rparr>)
           else
             let c1 = snd (Broadcast c (''- '' @ url @ convoId @ ''/'' @ messageId))
             in (Inr (ReadMessage c1 messageId),
                 r\<lparr>Convos := (Convos r)(convoId \<mapsto> c1\<lparr>Messages := (Messages c1)(messageId := None)\<rparr>)\<rparr>)))"

text \<open>
  \<open>Room.AddMessage\<close>. On an absent conversation the method is called on a nil
  pointer, which is first read in \<open>CreateMessage\<close> after \<open>NewId\<close> has returned: an
  error of \<open>NewId\<close> is returned as it is, and the map lookup panics otherwise.
\<close>

definition Room_AddMessage :: "string \<Rightarrow> error + bytes \<Rightarrow> Room \<Rightarrow> bytes \<Rightarrow> string \<Rightarrow> string \<Rightarrow> error option \<times> Room" where
  "Room_AddMessage url now r data convoId ip =
     (case Convos r convoId of
        None \<Rightarrow> (case NewId now data of Inl err \<Rightarrow> (Some err, r) | Inr messageId \<Rightarrow> (Some NilPanic, r))
      | Some c \<Rightarrow>
          (case AddMessage url now c data ip of
             (res, c') \<Rightarrow> (res, r\<lparr>Convos := (Convos r)(convoId \<mapsto> c')\<rparr>)))"

text \<open>
  \<open>JoinConvo\<close> writes \<open>ConvoId\<close> and \<open>UserId\<close> of the caller's user as well, so
  the user is returned with the room.
\<close>

definition JoinConvo :: "Room \<Rightarrow> User \<Rightarrow> string \<Rightarrow> error option \<times> User \<times> Room" where
  "JoinConvo r user convoId =
     (let user1 = user\<lparr>UserConvoId := convoId\<rparr>
      in case Convos r convoId of
           None \<Rightarrow> (Some NilPanic, user1, r)
         | Some c \<Rightarrow>
             (if fst (Users c) = None \<and> snd (Users c) \<noteq> None
              then let user2 = user1\<lparr>UserId := 0\<rparr>;
                       c1 = snd (Broadcast c (''> '' @ IP user2))
                   in (None, user2, r\<lparr>Convos := (Convos r)(convoId \<mapsto> set_slot c1 (UserId user2) (Some user2))\<rparr>)
              else if snd (Users c) = None \<and> fst (Users c) \<noteq> None
              then let user2 = user1\<lparr>UserId := 1\<rparr>;
                       c1 = snd (Broadcast c (''> '' @ IP user2))
                   in (None, user2, r\<lparr>Convos := (Convos r)(convoId \<mapsto> set_slot c1 (UserId user2) (Some user2))\<rparr>)
              else (Some (Error ''this is bad''), user1, r)))"

definition CreateConvo :: "error + bytes \<Rightarrow> Room \<Rightarrow> User \<Rightarrow> (error + string) \<times> User \<times> Room" where
  "CreateConvo now r user =
     (case NewId now [] of
        Inl err \<Rightarrow> (Inl err, user, r)
      | Inr convoId \<Rightarrow>
          (if Convos r convoId \<noteq> None
           then (Inl (Error ''convo id overwrite''), user, r)
           else
             let user1 = user\<lparr>UserConvoId := convoId, UserId := 0\<rparr>
             in (Inr convoId, user1,
                 r\<lparr>Convos := (Convos r)(convoId \<mapsto>
                      \<lparr>ConvoId = convoId, Users = (Some user1, None), Messages = Map.empty\<rparr>),
                   Pings := insert convoId (Pings r)\<rparr>)))"

definition IsConvo :: "Room \<Rightarrow> string \<Rightarrow> bool" where
  "IsConvo r convoId = (Convos r convoId \<noteq> None)"

definition IsConvoFull :: "Room \<Rightarrow> string \<Rightarrow> error + bool" where
  "IsConvoFull r convoId =
     (case Convos r convoId of
        None \<Rightarrow> Inl NilPanic
      | Some c \<Rightarrow> Inr (fst (Users c) \<noteq> None \<and> snd (Users c) \<noteq> None))"

text \<open>
  One tick of the \<open>Ping\<close> goroutine of a conversation: \<open>c.Broadcast([]byte("."))\<close>,
  its error dropped.
\<close>

definition Ping_tick :: "Room \<Rightarrow> string \<Rightarrow> Room" where
  "Ping_tick r convoId =
     (case Convos r convoId of
        None \<Rightarrow> r
      | Some c \<Rightarrow> r\<lparr>Convos := (Convos r)(convoId \<mapsto> snd (Broadcast c ''.''))\<rparr>)"

section \<open>main.go: the handlers\<close>

text \<open>
  What the handlers read of a request and of its response writer: the User-Agent
  header, the host part of \<open>r.RemoteAddr\<close> (all that \<open>GetIP\<close> keeps of it, through
  \<open>net.SplitHostPort\<close>), the result of \<open>ioutil.ReadAll(r.Body)\<close>, and whether the writer
  is an \<open>http.Flusher\<close>.
\<close>

record Request =
  UserAgent :: string
  RemoteHost :: string
  Body :: "error + bytes"
  IsFlusher :: bool

definition GetIP :: "Request \<Rightarrow> string" where
  "GetIP req = RemoteHost req"

text \<open>\<open>NewUser\<close> makes \<open>Pipe\<close> and leaves \<open>Stop\<close>, \<open>UserId\<close> and \<open>ConvoId\<close> at their zero values.\<close>

definition NewUser :: "Request \<Rightarrow> User" where
  "NewUser req =
     \<lparr>Pipe = [], UserStop = NilChan, IP = GetIP req, UserId = 0, UserConvoId = [],
      Flusher = IsFlusher req\<rparr>"

text \<open>
  How a call of a handler ends. \<open>Responded code body\<close>: it returned; no handler calls
  \<open>WriteHeader\<close>, so the status is always the implicit 200. \<open>Listening\<close>: it is inside
  the loop of \<open>user.Listen()\<close>. \<open>Panicked err\<close>: it called \<open>panic(err)\<close> or hit a
  run-time panic.
\<close>

datatype outcome = Responded nat bytes | Listening | Panicked error

text \<open>
  The users sit by value in the slots, so a send through the handler's pointer to a
  user that has been put into a conversation is a send to the user in that slot.
\<close>

definition Write_slot :: "Room \<Rightarrow> string \<Rightarrow> goint \<Rightarrow> bytes \<Rightarrow> Room" where
  "Write_slot r convoId userId data =
     (case Convos r convoId of
        None \<Rightarrow> r
      | Some c \<Rightarrow>
          (case slot c userId of
             Inr (Some u) \<Rightarrow> r\<lparr>Convos := (Convos r)(convoId \<mapsto> set_slot c userId (Some (Write u data)))\<rparr>
           | _ \<Rightarrow> r))"

text \<open>
  The start of \<open>Listen\<close>: it returns an error at once when the writer is no flusher,
  and enters its loop otherwise.
\<close>

definition Listen_start :: "User \<Rightarrow> error option" where
  "Listen_start u = (if \<not> Flusher u then Some (Error ''couldn't get flusher'') else None)"

definition listen :: "User \<Rightarrow> Room \<Rightarrow> outcome \<times> Room" where
  "listen u r = (case Listen_start u of Some err \<Rightarrow> (Panicked err, r) | None \<Rightarrow> (Listening, r))"

text \<open>
  The join branch of \<open>GET\<close> from its call of \<open>Store.JoinConvo\<close> on. The checks
  \<open>IsConvo\<close> and \<open>IsConvoFull\<close> before it are critical sections of their own, so
  \<open>r\<close> here is the registry as it is when \<open>JoinConvo\<close> takes the lock, which
  another request may have changed since the checks.
\<close>

definition GET_join :: "Room \<Rightarrow> Request \<Rightarrow> string \<Rightarrow> outcome \<times> Room" where
  "GET_join r req convoId =
     (case JoinConvo r (NewUser req) convoId of
        (Some err, user1, r1) \<Rightarrow> (Panicked err, r1)
      | (None, user1, r1) \<Rightarrow>
          (case OtherUser r1 convoId (UserId user1) of
             Inl err \<Rightarrow> (Panicked err, r1)
           | Inr data \<Rightarrow> listen user1 (Write_slot r1 convoId (UserId user1) data)))"

text \<open>
  \<open>GET\<close>, run without another request in between; \<open>page\<close> is the constant \<open>PAGE\<close>,
  declared outside the files at hand. The goroutine \<open>go user.Write(...)\<close> puts its
  payload on the user's channel before the handler goes into \<open>Listen\<close>.
\<close>

definition GET :: "string \<Rightarrow> bytes \<Rightarrow> error + bytes \<Rightarrow> Room \<Rightarrow> Request \<Rightarrow> string list \<Rightarrow> outcome \<times> Room" where
  "GET url page now r req ids =
     (if length (UserAgent req) < 4 \<or> take 4 (UserAgent req) \<noteq> ''curl''
      then (Responded 200 page, r)
      else if length ids = 2 then
        (if length (ids ! 1) = 0 then
           (case CreateConvo now r (NewUser req) of
              (Inl err, user, r1) \<Rightarrow> (Panicked err, r1)
            | (Inr convoId, user, r1) \<Rightarrow>
                listen user (Write_slot r1 convoId (UserId user) ('': '' @ url @ convoId)))
         else
           (let convoId = ids ! 1
            in if \<not> IsConvo r convoId then (Responded 200 [], r)
               else
                 (case IsConvoFull r convoId of
                    Inl err \<Rightarrow> (Panicked err, r)
                  | Inr True \<Rightarrow> (Responded 200 [], r)
                  | Inr False \<Rightarrow> GET_join r req convoId)))
      else if length ids = 3 then
        (let convoId = ids ! 1; messageId = ids ! 2
         in if \<not> IsConvo r convoId then (Responded 200 [], r)
            else
              (case IPExists r convoId (GetIP req) of
                 Inl err \<Rightarrow> (Panicked err, r)
               | Inr False \<Rightarrow> (Responded 200 [], r)
               | Inr True \<Rightarrow>
                   (case Room_ReadMessage url r convoId messageId of
                      (Inl err, r1) \<Rightarrow> (Panicked err, r1)
                    | (Inr data, r1) \<Rightarrow> (Responded 200 (case data of None \<Rightarrow> [] | Some d \<Rightarrow> d), r1))))
      else (Responded 200 [], r))"

definition PUT :: "string \<Rightarrow> error + bytes \<Rightarrow> Room \<Rightarrow> Request \<Rightarrow> string list \<Rightarrow> outcome \<times> Room" where
  "PUT url now r req ids =
     (if length ids = 2 then
        (let convoId = ids ! 1
         in if \<not> IsConvo r convoId then (Responded 200 [], r)
            else
              (case IPExists r convoId (GetIP req) of
                 Inl err \<Rightarrow> (Panicked err, r)
               | Inr False \<Rightarrow> (Responded 200 [], r)
               | Inr True \<Rightarrow>
                   (case Body req of
                      Inl err \<Rightarrow> (Panicked err, r)
                    | Inr data \<Rightarrow>
                        (case Room_AddMessage url now r data convoId (GetIP req) of
                           (Some err, r1) \<Rightarrow> (Panicked err, r1)
                         | (None, r1) \<Rightarrow> (Responded 200 [], r1)))))
      else (Responded 200 [], r))"

text \<open>The initial value of the global \<open>Store\<close>.\<close>

definition Store :: Room where
  "Store = \<lparr>Convos = Map.empty, Pings = {}\<rparr>"

section \<open>util.go: the loop of Listen\<close>

text \<open>
  \<open>Listen\<close> runs two goroutines on one user: the loop, which selects between a
  receive on \<open>Pipe\<close> and a receive on \<open>Stop\<close>, and the closure that waits for the
  close notification, calls \<open>Store.DeleteUser\<close>, sends on \<open>Stop\<close> and then closes
  \<open>Pipe\<close>. Both channels are unbuffered: a send and its receive happen as one
  step, and neither ever happens on a nil channel.
\<close>

datatype closer_pc = AwaitNotify | AtDeleteUser | AtSendStop | AtClosePipe | CloserDone

datatype loop_pc = Selecting | LoopReturned

record Listener =
  closer :: closer_pc
  loop :: loop_pc
  stop_chan :: chan
  pipe_closed :: bool
  flushed :: "bytes list"

datatype event = ClientClosed | DeleteUserDone | StopRendezvous | ClosePipe | PipeData bytes

fun step :: "Listener \<Rightarrow> event \<Rightarrow> Listener option" where
  "step s ClientClosed =
     (if closer s = AwaitNotify then Some (s\<lparr>closer := AtDeleteUser\<rparr>) else None)"
| "step s DeleteUserDone =
     (if closer s = AtDeleteUser then Some (s\<lparr>closer := AtSendStop\<rparr>) else None)"
| "step s StopRendezvous =
     (if closer s = AtSendStop \<and> loop s = Selecting \<and> stop_chan s = MadeChan
      then Some (s\<lparr>closer := AtClosePipe, loop := LoopReturned\<rparr>) else None)"
| "step s ClosePipe =
     (if closer s = AtClosePipe then Some (s\<lparr>closer := CloserDone, pipe_closed := True\<rparr>) else None)"
| "step s (PipeData d) =
     (if loop s = Selecting \<and> \<not> pipe_closed s
      then Some (s\<lparr>flushed := flushed s @ [d @ [CHR 0x0A]]\<rparr>) else None)"

text \<open>A run is a sequence of events, each enabled where it happens.\<close>

fun run :: "Listener \<Rightarrow> event list \<Rightarrow> Listener option" where
  "run s [] = Some s"
| "run s (e # es) = (case step s e of None \<Rightarrow> None | Some s' \<Rightarrow> run s' es)"

text \<open>The state in which \<open>Listen\<close> enters its loop, the closure just started.\<close>

definition Listen_loop :: "User \<Rightarrow> Listener" where
  "Listen_loop u =
     \<lparr>closer = AwaitNotify, loop = Selecting, stop_chan = UserStop u,
      pipe_closed = False, flushed = []\<rparr>"

section \<open>Sequences of registry operations\<close>

text \<open>
  Every call that changes the registry, with its arguments: the methods of \<open>Room\<close>,
  a tick of a \<open>Ping\<close> goroutine and a direct \<open>Write\<close> to a user in a slot.
\<close>

datatype op =
    Create "error + bytes" User
  | Join User string
  | Delete string goint
  | Add string "error + bytes" bytes string string
  | Read string string string
  | Tick string
  | Send string goint bytes

fun apply_op :: "Room \<Rightarrow> op \<Rightarrow> Room" where
  "apply_op r (Create now user) = snd (snd (CreateConvo now r user))"
| "apply_op r (Join user convoId) = snd (snd (JoinConvo r user convoId))"
| "apply_op r (Delete convoId userId) = snd (DeleteUser r convoId userId)"
| "apply_op r (Add url now data convoId ip) = snd (Room_AddMessage url now r data convoId ip)"
| "apply_op r (Read url convoId messageId) = snd (Room_ReadMessage url r convoId messageId)"
| "apply_op r (Tick convoId) = Ping_tick r convoId"
| "apply_op r (Send convoId userId data) = Write_slot r convoId userId data"

definition occupied :: "Convo \<Rightarrow> bool" where
  "occupied c = (fst (Users c) \<noteq> None \<or> snd (Users c) \<noteq> None)"

definition Room_inv :: "Room \<Rightarrow> bool" where
  "Room_inv r = (\<forall>c \<in> ran (Convos r). occupied c)"

text \<open>A request is rejected when it is answered with a status outside 200..299.\<close>

definition rejected :: "outcome \<Rightarrow> bool" where
  "rejected out = (case out of Responded code body \<Rightarrow> code < 200 \<or> 300 \<le> code | _ \<Rightarrow> False)"

section \<open>Concrete values\<close>

definition alice :: User where
  "alice = \<lparr>Pipe = [], UserStop = NilChan, IP = ''10.0.0.1'', UserId = 0, UserConvoId = ''7'',
            Flusher = True\<rparr>"

definition bob :: User where
  "bob = \<lparr>Pipe = [], UserStop = NilChan, IP = ''10.0.0.2'', UserId = 1, UserConvoId = ''7'',
          Flusher = True\<rparr>"

definition convo7 :: Convo where
  "convo7 = \<lparr>ConvoId = ''7'', Users = (Some alice, None), Messages = Map.empty(''42'' \<mapsto> ''hi'')\<rparr>"

definition room7 :: Room where
  "room7 = \<lparr>Convos = Map.empty(''7'' \<mapsto> convo7), Pings = {''7''}\<rparr>"

definition req7 :: Request where
  "req7 = \<lparr>UserAgent = ''curl/8.0'', RemoteHost = ''10.0.0.1'', Body = Inr ''hi'', IsFlusher = True\<rparr>"

definition room7x :: Room where
  "room7x = \<lparr>Convos = Map.empty(''7'' \<mapsto> convo7\<lparr>Messages := Map.empty(''446255112'' \<mapsto> ''x'')\<rparr>),
             Pings = {''7''}\<rparr>"

definition room77 :: Room where
  "room77 = \<lparr>Convos = Map.empty(''7'' \<mapsto> convo7\<lparr>Users := (Some alice, Some bob)\<rparr>), Pings = {''7''}\<rparr>"

definition ops7 :: "op list" where
  "ops7 = [Create (Inr []) alice, Join bob ''2166136261'', Delete ''2166136261'' 0]"

section \<open>Slot indices\<close>

text \<open>
  C10. For a slot index \<open>userId\<close> that is 0 or 1, \<open>OtherUserId userId\<close> is
  \<open>1 - userId\<close>, which is the index of the other slot, and applying \<open>OtherUserId\<close>
  twice gives \<open>userId\<close> back.
\<close>

theorem OtherUserId_involution:
  "userId \<in> {0, 1} \<Longrightarrow>
     OtherUserId userId = 1 - userId \<and>
     OtherUserId userId \<in> {0, 1} \<and>
     OtherUserId userId \<noteq> userId \<and>
     OtherUserId (OtherUserId userId) = userId"
  by (auto simp: OtherUserId_def)

theorem OtherUserId_involution_witness:
  "(1::goint) \<in> {0, 1} \<and> OtherUserId 1 = 1 - 1 \<and> OtherUserId 1 \<in> {0, 1} \<and>
   OtherUserId 1 \<noteq> 1 \<and> OtherUserId (OtherUserId 1) = 1"
  using OtherUserId_involution [of 1] by (simp add: OtherUserId_def)

section \<open>Delivery to the occupied slots\<close>

lemma Broadcast_snd:
  "snd (Broadcast c data) =
     c\<lparr>Users := (map_option (\<lambda>u. Write u data) (fst (Users c)),
                 map_option (\<lambda>u. Write u data) (snd (Users c)))\<rparr>"
  by (cases c) (auto simp: Broadcast_def Let_def split: option.splits)

text \<open>
  C9. \<open>Broadcast\<close> returns an error exactly when neither slot is occupied, and then
  nothing is delivered: the conversation is unchanged. Otherwise it returns no error
  and every occupied slot has received the data.
\<close>

theorem Broadcast_fails_iff_empty:
  "(fst (Broadcast c data) \<noteq> None) = (fst (Users c) = None \<and> snd (Users c) = None) \<and>
   (fst (Users c) = None \<and> snd (Users c) = None \<longrightarrow>
      Broadcast c data = (Some (Error ''no users in conversation''), c)) \<and>
   (fst (Users c) \<noteq> None \<or> snd (Users c) \<noteq> None \<longrightarrow>
      Broadcast c data =
        (None, c\<lparr>Users := (map_option (\<lambda>u. Write u data) (fst (Users c)),
                           map_option (\<lambda>u. Write u data) (snd (Users c)))\<rparr>))"
  by (cases c) (auto simp: Broadcast_def Let_def split: option.splits)

theorem Broadcast_fails_iff_empty_witness:
  "Broadcast convo7 ''.'' =
     (None, convo7\<lparr>Users := (Some (alice\<lparr>Pipe := [''.'']\<rparr>), None)\<rparr>) \<and>
   Broadcast (convo7\<lparr>Users := (None, None)\<rparr>) ''.'' =
     (Some (Error ''no users in conversation''), convo7\<lparr>Users := (None, None)\<rparr>)"
  using Broadcast_fails_iff_empty [of convo7 "''.''"]
        Broadcast_fails_iff_empty [of "convo7\<lparr>Users := (None, None)\<rparr>" "''.''"]
  by (simp add: convo7_def alice_def Write_def)

section \<open>Read-once messages\<close>

text \<open>
  C1. In a conversation of the registry, reading a stored message returns its bytes,
  removes the key from the message map and has sent the read receipt to every
  occupied slot: the receipt is the last payload on the pipe of each occupant.
  Reading the same id again fails with the not-found error; and reading an absent
  id fails with that error and leaves the whole registry as it was.
\<close>

theorem ReadMessage_read_once:
  assumes c: "Convos r convoId = Some c"
  shows "(Messages c messageId = Some data \<longrightarrow>
            (let receipt = ''- '' @ url @ convoId @ ''/'' @ messageId;
                 c' = c\<lparr>Users := (map_option (\<lambda>u. u\<lparr>Pipe := Pipe u @ [receipt]\<rparr>) (fst (Users c)),
                                   map_option (\<lambda>u. u\<lparr>Pipe := Pipe u @ [receipt]\<rparr>) (snd (Users c))),
                        Messages := (Messages c)(messageId := None)\<rparr>;
                 r' = r\<lparr>Convos := (Convos r)(convoId \<mapsto> c')\<rparr>
             in Room_ReadMessage url r convoId messageId = (Inr (Some data), r') \<and>
                Room_ReadMessage url r' convoId messageId =
                  (Inl (Error ''message doesn't exist''), r'))) \<and>
         (Messages c messageId = None \<longrightarrow>
            Room_ReadMessage url r convoId messageId =
              (Inl (Error ''message doesn't exist''), r))"
proof -
  have absent: "Room_ReadMessage url q convoId messageId =
      (Inl (Error ''message doesn't exist''), q)"
    if "Convos q convoId = Some d" "Messages d messageId = None" for q d
  proof -
    from that(2) have "(Messages d)(messageId := None) = Messages d"
      by (auto simp: fun_eq_iff)
    then have "d\<lparr>Messages := (Messages d)(messageId := None)\<rparr> = d" by simp
    moreover have "(Convos q)(convoId \<mapsto> d) = Convos q"
      using that(1) by (auto simp: fun_eq_iff)
    ultimately show ?thesis
      using that by (simp add: Room_ReadMessage_def ReadMessage_def)
  qed
  show ?thesis
    using c absent [OF c]
    by (auto simp: Let_def Room_ReadMessage_def ReadMessage_def Broadcast_snd Write_def intro!: absent)
qed

theorem ReadMessage_read_once_witness:
  "Convos room7 ''7'' = Some convo7 \<and> Messages convo7 ''42'' = Some ''hi'' \<and>
   Room_ReadMessage ''u/'' room7 ''7'' ''42'' =
     (Inr (Some ''hi''),
      room7\<lparr>Convos := (Convos room7)(''7'' \<mapsto>
         convo7\<lparr>Users := (Some (alice\<lparr>Pipe := [''- u/7/42'']\<rparr>), None),
                Messages := (Messages convo7)(''42'' := None)\<rparr>)\<rparr>) \<and>
   Room_ReadMessage ''u/'' (snd (Room_ReadMessage ''u/'' room7 ''7'' ''42'')) ''7'' ''42'' =
     (Inl (Error ''message doesn't exist''), snd (Room_ReadMessage ''u/'' room7 ''7'' ''42'')) \<and>
   Room_ReadMessage ''u/'' room7 ''7'' ''43'' = (Inl (Error ''message doesn't exist''), room7)"
  using ReadMessage_read_once [of room7 "''7''" convo7 "''42''" "''hi''" "''u/''"]
        ReadMessage_read_once [of room7 "''7''" convo7 "''43''" "''hi''" "''u/''"]
  by (simp add: room7_def convo7_def alice_def Let_def)

section \<open>Joining\<close>

text \<open>
  C3. In a conversation with exactly one occupied slot, \<open>JoinConvo\<close> returns no error
  and puts the new user into the free slot; the join notification with the new
  user's IP goes to the user that was there before and not to the new one, whose
  pipe is as it was. With both slots occupied it returns an error and the registry,
  so both slots, is unchanged.
\<close>

theorem JoinConvo_fills_free_slot:
  assumes c: "Convos r convoId = Some c"
  shows "(Users c = (Some p, None) \<longrightarrow>
            (let user' = user\<lparr>UserConvoId := convoId, UserId := 1\<rparr>
             in JoinConvo r user convoId =
                  (None, user',
                   r\<lparr>Convos := (Convos r)(convoId \<mapsto>
                        c\<lparr>Users := (Some (Write p (''> '' @ IP user)), Some user')\<rparr>)\<rparr>) \<and>
                Pipe user' = Pipe user)) \<and>
         (Users c = (None, Some p) \<longrightarrow>
            (let user' = user\<lparr>UserConvoId := convoId, UserId := 0\<rparr>
             in JoinConvo r user convoId =
                  (None, user',
                   r\<lparr>Convos := (Convos r)(convoId \<mapsto>
                        c\<lparr>Users := (Some user', Some (Write p (''> '' @ IP user)))\<rparr>)\<rparr>) \<and>
                Pipe user' = Pipe user)) \<and>
         (Users c = (Some p, Some q) \<longrightarrow>
            JoinConvo r user convoId =
              (Some (Error ''this is bad''), user\<lparr>UserConvoId := convoId\<rparr>, r))"
  using c by (auto simp: JoinConvo_def Let_def Broadcast_snd set_slot_def)

theorem JoinConvo_fills_free_slot_witness:
  "Convos room7 ''7'' = Some convo7 \<and> Users convo7 = (Some alice, None) \<and>
   JoinConvo room7 (bob\<lparr>UserId := 0, UserConvoId := []\<rparr>) ''7'' =
     (None, bob,
      room7\<lparr>Convos := (Convos room7)(''7'' \<mapsto>
         convo7\<lparr>Users := (Some (alice\<lparr>Pipe := [''> 10.0.0.2'']\<rparr>), Some bob)\<rparr>)\<rparr>) \<and>
   fst (JoinConvo (room7\<lparr>Convos := (Convos room7)(''7'' \<mapsto>
          convo7\<lparr>Users := (Some alice, Some bob)\<rparr>)\<rparr>) bob ''7'') = Some (Error ''this is bad'')"
  using JoinConvo_fills_free_slot [of room7 "''7''" convo7 alice "bob\<lparr>UserId := 0, UserConvoId := []\<rparr>" bob]
        JoinConvo_fills_free_slot [of "room7\<lparr>Convos := (Convos room7)(''7'' \<mapsto>
          convo7\<lparr>Users := (Some alice, Some bob)\<rparr>)\<rparr>" "''7''"
          "convo7\<lparr>Users := (Some alice, Some bob)\<rparr>" alice bob bob]
  by (simp add: room7_def convo7_def alice_def bob_def Let_def Write_def)

section \<open>Adding a message\<close>

text \<open>
  C5. \<open>AddMessage\<close> takes the id that \<open>NewId\<close> makes with the data as salt. If that id
  is a key of the message map already, it returns the overwrite error and the
  conversation is unchanged. Otherwise the data is stored under the id and every
  occupied slot receives the link to the message, after two spaces when the slot's
  IP is the sender's and after a plus and a space otherwise: the line starts with a
  space for the sender and with a plus for the peer.
\<close>

theorem AddMessage_stores_and_notifies:
  assumes mid: "NewId now data = Inr messageId"
  shows "(Messages c messageId \<noteq> None \<longrightarrow>
            AddMessage url now c data ip = (Some (Error ''message id overwrite''), c)) \<and>
         (Messages c messageId = None \<longrightarrow>
            (let link = url @ ConvoId c @ ''/'' @ messageId;
                 note = (\<lambda>u. Write u ((if IP u = ip then ''  '' else ''+ '') @ link))
             in AddMessage url now c data ip =
                  (None, c\<lparr>Messages := (Messages c)(messageId \<mapsto> data),
                           Users := (map_option note (fst (Users c)),
                                     map_option note (snd (Users c)))\<rparr>) \<and>
                hd (''  '' @ link) = CHR '' '' \<and> hd (''+ '' @ link) = CHR ''+''))"
  using mid
  by (cases c) (auto simp: AddMessage_def CreateMessage_def notify_def Let_def split: option.splits)

theorem AddMessage_stores_and_notifies_witness:
  "NewId (Inr ''T'') ''hi'' = Inr ''446255112'' \<and>
   AddMessage ''u/'' (Inr ''T'') (convo7\<lparr>Users := (Some alice, Some bob)\<rparr>) ''hi'' ''10.0.0.1'' =
     (None, convo7\<lparr>Messages := (Messages convo7)(''446255112'' \<mapsto> ''hi''),
                   Users := (Some (alice\<lparr>Pipe := [''  u/7/446255112'']\<rparr>),
                             Some (bob\<lparr>Pipe := [''+ u/7/446255112'']\<rparr>))\<rparr>) \<and>
   AddMessage ''u/'' (Inr ''T'') (convo7\<lparr>Messages := Map.empty(''446255112'' \<mapsto> ''x'')\<rparr>) ''hi'' ''10.0.0.1'' =
     (Some (Error ''message id overwrite''), convo7\<lparr>Messages := Map.empty(''446255112'' \<mapsto> ''x'')\<rparr>)"
proof -
  have id: "NewId (Inr ''T'') ''hi'' = Inr ''446255112''"
    by (simp add: NewId_def fnv32a_def decimal.simps digit_def)
  show ?thesis
    using id
      AddMessage_stores_and_notifies [OF id, of "convo7\<lparr>Users := (Some alice, Some bob)\<rparr>" "''u/''" "''10.0.0.1''"]
      AddMessage_stores_and_notifies [OF id, of "convo7\<lparr>Messages := Map.empty(''446255112'' \<mapsto> ''x'')\<rparr>" "''u/''" "''10.0.0.1''"]
    by (simp add: convo7_def alice_def bob_def Let_def Write_def)
qed

section \<open>Leaving\<close>

text \<open>
  C6. Removing the user of an occupied slot empties that slot. If the other slot is
  occupied, its user receives the leave notification with the IP of the user that
  left, and the conversation stays in the registry with its \<open>Ping\<close> goroutine. If
  the other slot is empty too, the \<open>Ping\<close> goroutine is stopped and the
  conversation is deleted from the registry map. Both happen in the one call of
  \<open>DeleteUser\<close>, which is one critical section.
\<close>

theorem DeleteUser_leave:
  assumes c: "Convos r convoId = Some c"
      and u: "slot c userId = Inr (Some u)"
  shows "userId \<in> {0, 1} \<and>
         slot (set_slot c userId None) userId = Inr None \<and>
         (\<forall>other. slot c (OtherUserId userId) = Inr (Some other) \<longrightarrow>
            DeleteUser r convoId userId =
              (None, r\<lparr>Convos := (Convos r)(convoId \<mapsto>
                 set_slot (set_slot c userId None) (OtherUserId userId)
                   (Some (Write other (''< '' @ IP u))))\<rparr>)) \<and>
         (slot c (OtherUserId userId) = Inr None \<longrightarrow>
            DeleteUser r convoId userId =
              (None, r\<lparr>Convos := (Convos r)(convoId := None), Pings := Pings r - {convoId}\<rparr>))"
  using c u
  by (auto simp: DeleteUser_def slot_def set_slot_def OtherUserId_def Let_def split: if_splits)

theorem DeleteUser_leave_witness:
  "DeleteUser room7 ''7'' 0 = (None, \<lparr>Convos = Map.empty, Pings = {}\<rparr>) \<and>
   DeleteUser (room7\<lparr>Convos := (Convos room7)(''7'' \<mapsto> convo7\<lparr>Users := (Some alice, Some bob)\<rparr>)\<rparr>) ''7'' 0 =
     (None, room7\<lparr>Convos := (Convos room7)(''7'' \<mapsto>
        convo7\<lparr>Users := (None, Some (bob\<lparr>Pipe := [''< 10.0.0.1'']\<rparr>))\<rparr>)\<rparr>)"
  using DeleteUser_leave [of room7 "''7''" convo7 0 alice]
        DeleteUser_leave [of "room7\<lparr>Convos := (Convos room7)(''7'' \<mapsto> convo7\<lparr>Users := (Some alice, Some bob)\<rparr>)\<rparr>"
           "''7''" "convo7\<lparr>Users := (Some alice, Some bob)\<rparr>" 0 alice]
  by (simp add: room7_def convo7_def alice_def bob_def slot_def set_slot_def OtherUserId_def Write_def)

section \<open>The invariant of the registry\<close>

lemma Room_inv_iff: "Room_inv r = (\<forall>k c. Convos r k = Some c \<longrightarrow> occupied c)"
  by (auto simp: Room_inv_def ran_def)

lemma occupied_Broadcast: "occupied (snd (Broadcast c data)) = occupied c"
  by (simp add: Broadcast_snd occupied_def)

lemma inv_CreateConvo: "Room_inv r \<Longrightarrow> Room_inv (snd (snd (CreateConvo now r user)))"
  by (auto simp: Room_inv_iff CreateConvo_def occupied_def Let_def split: sum.splits)

lemma inv_JoinConvo: "Room_inv r \<Longrightarrow> Room_inv (snd (snd (JoinConvo r user convoId)))"
  by (auto simp: Room_inv_iff JoinConvo_def occupied_def set_slot_def Let_def split: option.splits)

lemma inv_DeleteUser: "Room_inv r \<Longrightarrow> Room_inv (snd (DeleteUser r convoId userId))"
  by (auto simp: Room_inv_iff DeleteUser_def occupied_def slot_def set_slot_def OtherUserId_def Let_def
      split: option.splits sum.splits if_splits)

lemma occupied_AddMessage: "occupied (snd (AddMessage url now c data ip)) = occupied c"
  by (cases c) (auto simp: AddMessage_def CreateMessage_def occupied_def Let_def split: sum.splits option.splits)

lemma inv_AddMessage:
  assumes inv: "Room_inv r"
  shows "Room_inv (snd (Room_AddMessage url now r data convoId ip))"
proof (cases "Convos r convoId")
  case None
  with inv show ?thesis by (simp add: Room_AddMessage_def split: sum.splits)
next
  case (Some c)
  obtain res c' where a: "AddMessage url now c data ip = (res, c')"
    by (cases "AddMessage url now c data ip")
  with occupied_AddMessage [of url now c data ip] have "occupied c' = occupied c" by simp
  with inv Some a show ?thesis by (auto simp: Room_inv_iff Room_AddMessage_def)
qed

lemma inv_ReadMessage: "Room_inv r \<Longrightarrow> Room_inv (snd (Room_ReadMessage url r convoId messageId))"
  by (auto simp: Room_inv_iff Room_ReadMessage_def Let_def Broadcast_snd occupied_def split: option.splits)

lemma inv_Ping: "Room_inv r \<Longrightarrow> Room_inv (Ping_tick r convoId)"
  by (auto simp: Room_inv_iff Ping_tick_def Broadcast_snd occupied_def split: option.splits)

lemma inv_Write_slot: "Room_inv r \<Longrightarrow> Room_inv (Write_slot r convoId userId data)"
  by (auto simp: Room_inv_iff Write_slot_def slot_def set_slot_def occupied_def
      split: option.splits sum.splits if_splits)

lemma inv_apply_op: "Room_inv r \<Longrightarrow> Room_inv (apply_op r x)"
  by (cases x) (simp_all add: inv_CreateConvo inv_JoinConvo inv_DeleteUser inv_AddMessage
      inv_ReadMessage inv_Ping inv_Write_slot)

lemma inv_foldl: "Room_inv r \<Longrightarrow> Room_inv (foldl apply_op r ops)"
  by (induction ops arbitrary: r) (simp_all add: inv_apply_op)

lemma inv_Store: "Room_inv Store"
  by (simp add: Room_inv_def Store_def)

text \<open>
  C2. After any sequence of registry operations from the empty registry, every
  conversation in the registry map has an occupied slot. Each of \<open>CreateConvo\<close>,
  \<open>JoinConvo\<close> and \<open>DeleteUser\<close> keeps that invariant, and a successful
  \<open>CreateConvo\<close> inserts the conversation with slot 0 filled and slot 1 empty.
\<close>

theorem registry_conversations_occupied:
  "Room_inv (foldl apply_op Store ops) \<and>
   (Room_inv r \<longrightarrow>
      Room_inv (snd (snd (CreateConvo now r user))) \<and>
      Room_inv (snd (snd (JoinConvo r user convoId))) \<and>
      Room_inv (snd (DeleteUser r convoId userId)) \<and>
      (\<forall>newId. fst (CreateConvo now r user) = Inr newId \<longrightarrow>
         (\<exists>c u. Convos (snd (snd (CreateConvo now r user))) newId = Some c \<and>
                Users c = (Some u, None))))"
  by (auto simp: inv_foldl inv_Store inv_CreateConvo inv_JoinConvo inv_DeleteUser)
     (auto simp: CreateConvo_def Let_def split: sum.splits if_splits)

theorem registry_conversations_occupied_witness:
  "(\<exists>c. Convos (foldl apply_op Store ops7) ''2166136261'' = Some c \<and> fst (Users c) = None \<and> snd (Users c) \<noteq> None) \<and>
   Room_inv (foldl apply_op Store ops7) \<and>
   foldl apply_op Store (ops7 @ [Delete ''2166136261'' 1]) = Store"
  using registry_conversations_occupied [of ops7 Store]
  by (simp add: ops7_def Store_def CreateConvo_def JoinConvo_def DeleteUser_def NewId_def fnv32a_def
        decimal.simps digit_def Let_def Broadcast_snd slot_def set_slot_def OtherUserId_def alice_def bob_def Write_def)

section \<open>Authorisation by IP\<close>

lemma IPExists_iff:
  "Convos r convoId = Some c \<Longrightarrow>
     IPExists r convoId ip =
       Inr (\<exists>u. (fst (Users c) = Some u \<or> snd (Users c) = Some u) \<and> IP u = ip)"
  by (auto simp: IPExists_def)

text \<open>
  C4. \<open>IPExists\<close> on a conversation of the registry is true exactly when an occupied
  slot has the given IP. A request to read a message (GET with three path
  elements) or to write one (PUT with two) whose IP is that of no occupant leaves
  the registry as it was, pipes of all users included, and is answered with an empty
  body (or, for a GET that is not from curl, with the landing page).
\<close>

theorem unauthorised_request_is_noop:
  assumes c: "Convos r convoId = Some c"
  shows "IPExists r convoId ip =
           Inr (\<exists>u. (fst (Users c) = Some u \<or> snd (Users c) = Some u) \<and> IP u = ip) \<and>
         ((\<forall>u. fst (Users c) = Some u \<or> snd (Users c) = Some u \<longrightarrow> IP u \<noteq> GetIP req) \<longrightarrow>
            (length ids3 = 3 \<and> ids3 ! 1 = convoId \<longrightarrow>
               snd (GET url page now r req ids3) = r \<and>
               (fst (GET url page now r req ids3) = Responded 200 [] \<or>
                fst (GET url page now r req ids3) = Responded 200 page)) \<and>
            (length ids2 = 2 \<and> ids2 ! 1 = convoId \<longrightarrow>
               PUT url now r req ids2 = (Responded 200 [], r)))"
proof -
  have no: "IPExists r convoId (GetIP req) = Inr False"
    if "\<forall>u. fst (Users c) = Some u \<or> snd (Users c) = Some u \<longrightarrow> IP u \<noteq> GetIP req"
    using that c by (auto simp: IPExists_def)
  have get: "snd (GET url page now r req ids3) = r \<and>
       (fst (GET url page now r req ids3) = Responded 200 [] \<or>
        fst (GET url page now r req ids3) = Responded 200 page)"
    if "IPExists r convoId (GetIP req) = Inr False" "length ids3 = 3" "ids3 ! 1 = convoId"
    using that c by (simp add: GET_def IsConvo_def Let_def)
  have put: "PUT url now r req ids2 = (Responded 200 [], r)"
    if "IPExists r convoId (GetIP req) = Inr False" "length ids2 = 2" "ids2 ! 1 = convoId"
    using that c by (simp add: PUT_def IsConvo_def Let_def)
  show ?thesis
    using IPExists_iff [OF c, of ip] no get put by blast
qed

theorem unauthorised_request_is_noop_witness:
  "Convos room7 ''7'' = Some convo7 \<and>
   IPExists room7 ''7'' ''10.0.0.1'' = Inr True \<and>
   IPExists room7 ''7'' ''10.0.0.9'' = Inr False \<and>
   GET ''u/'' ''page'' (Inr ''T'') room7 (req7\<lparr>RemoteHost := ''10.0.0.9''\<rparr>) [[], ''7'', ''42''] =
     (Responded 200 [], room7) \<and>
   PUT ''u/'' (Inr ''T'') room7 (req7\<lparr>RemoteHost := ''10.0.0.9''\<rparr>) [[], ''7''] =
     (Responded 200 [], room7)"
  using unauthorised_request_is_noop [of room7 "''7''" convo7 "''10.0.0.1''"
          "req7\<lparr>RemoteHost := ''10.0.0.9''\<rparr>" "[[], ''7'', ''42'']" "''u/''" "''page''" "Inr ''T''" "[[], ''7'']"]
        unauthorised_request_is_noop [of room7 "''7''" convo7 "''10.0.0.9''"
          "req7\<lparr>RemoteHost := ''10.0.0.9''\<rparr>" "[[], ''7'', ''42'']" "''u/''" "''page''" "Inr ''T''" "[[], ''7'']"]
  by (simp add: room7_def convo7_def alice_def req7_def GetIP_def GET_def PUT_def IsConvo_def
        IPExists_def Let_def)

section \<open>Failed operations in the handlers\<close>

lemma AddMessage_error: "fst (AddMessage url now c data ip) = Some err \<Longrightarrow> snd (AddMessage url now c data ip) = c"
  by (auto simp: AddMessage_def CreateMessage_def Let_def split: sum.splits if_splits)

lemma Room_AddMessage_error:
  "fst (Room_AddMessage url now r data convoId ip) = Some err \<Longrightarrow>
     Room_AddMessage url now r data convoId ip = (Some err, r)"
proof (cases "Convos r convoId")
  case None
  then show "fst (Room_AddMessage url now r data convoId ip) = Some err \<Longrightarrow> ?thesis"
    by (auto simp: Room_AddMessage_def split: sum.splits)
next
  case (Some c)
  assume e: "fst (Room_AddMessage url now r data convoId ip) = Some err"
  with Some have f: "fst (AddMessage url now c data ip) = Some err"
    by (simp add: Room_AddMessage_def split: prod.splits)
  from AddMessage_error [OF f] have "snd (AddMessage url now c data ip) = c" .
  moreover have "(Convos r)(convoId \<mapsto> c) = Convos r" using Some by (auto simp: fun_eq_iff)
  ultimately show ?thesis using Some f
    by (cases "AddMessage url now c data ip") (simp add: Room_AddMessage_def)
qed

lemma CreateConvo_error:
  "fst (CreateConvo now r user) = Inl err \<Longrightarrow> CreateConvo now r user = (Inl err, user, r)"
  by (auto simp: CreateConvo_def Let_def split: sum.splits if_splits)

lemma JoinConvo_error:
  "fst (JoinConvo r user convoId) = Some err \<Longrightarrow>
     JoinConvo r user convoId = (Some err, user\<lparr>UserConvoId := convoId\<rparr>, r)"
  by (auto simp: JoinConvo_def Let_def split: option.splits if_splits)

text \<open>
  A PUT whose message id collides: \<open>AddMessage\<close> fails with the overwrite error,
  the handler panics with it and answers with no status at all.
\<close>

theorem collision_is_not_rejected:
  "Room_AddMessage ''u/'' (Inr ''T'') room7x ''hi'' ''7'' ''10.0.0.1'' =
     (Some (Error ''message id overwrite''), room7x) \<and>
   PUT ''u/'' (Inr ''T'') room7x req7 [[], ''7''] = (Panicked (Error ''message id overwrite''), room7x) \<and>
   \<not> rejected (fst (PUT ''u/'' (Inr ''T'') room7x req7 [[], ''7'']))"
proof -
  have id: "NewId (Inr ''T'') ''hi'' = Inr ''446255112''"
    by (simp add: NewId_def fnv32a_def decimal.simps digit_def)
  have a: "Room_AddMessage ''u/'' (Inr ''T'') room7x ''hi'' ''7'' ''10.0.0.1'' =
     (Some (Error ''message id overwrite''), room7x)"
    by (rule Room_AddMessage_error)
       (simp add: Room_AddMessage_def AddMessage_def CreateMessage_def id room7x_def convo7_def)
  have p: "PUT ''u/'' (Inr ''T'') room7x req7 [[], ''7''] = (Panicked (Error ''message id overwrite''), room7x)"
    using a by (simp add: PUT_def IsConvo_def IPExists_def GetIP_def Let_def req7_def room7x_def convo7_def alice_def)
  show ?thesis using a p by (simp add: rejected_def)
qed

lemma GET_join_tail:
  "4 \<le> length (UserAgent req) \<Longrightarrow> take 4 (UserAgent req) = ''curl'' \<Longrightarrow> length ids = 2 \<Longrightarrow>
   ids ! 1 \<noteq> [] \<Longrightarrow> IsConvo r (ids ! 1) \<Longrightarrow> IsConvoFull r (ids ! 1) = Inr False \<Longrightarrow>
     GET url page now r req ids = GET_join r req (ids ! 1)"
  by (simp add: GET_def Let_def)

text \<open>
  C7, as the code has it. When the operation of a request fails (adding a message
  or reading the body of the request, creating a conversation, joining one), the
  handler panics with the error of the operation: it writes no status and no body,
  and the registry is left exactly as it was before the request. For the join, the
  registry is the one that \<open>JoinConvo\<close> finds, which may have been filled since the
  handler checked it.
\<close>

theorem failed_operation_panics:
  "(length ids = 2 \<and> IsConvo r (ids ! 1) \<and> IPExists r (ids ! 1) (GetIP req) = Inr True \<longrightarrow>
      (Body req = Inl err \<longrightarrow>
         PUT url now r req ids = (Panicked err, r) \<and> \<not> rejected (fst (PUT url now r req ids))) \<and>
      (Body req = Inr data \<and>
       fst (Room_AddMessage url now r data (ids ! 1) (GetIP req)) = Some err \<longrightarrow>
         PUT url now r req ids = (Panicked err, r) \<and> \<not> rejected (fst (PUT url now r req ids)))) \<and>
   (4 \<le> length (UserAgent req) \<and> take 4 (UserAgent req) = ''curl'' \<and> length ids = 2 \<and>
    ids ! 1 = [] \<and> fst (CreateConvo now r (NewUser req)) = Inl err \<longrightarrow>
      GET url page now r req ids = (Panicked err, r) \<and>
      \<not> rejected (fst (GET url page now r req ids))) \<and>
   (fst (JoinConvo r (NewUser req) convoId) = Some err \<longrightarrow>
      GET_join r req convoId = (Panicked err, r) \<and> \<not> rejected (fst (GET_join r req convoId)))"
  by (auto simp: PUT_def GET_def GET_join_def Let_def rejected_def
      dest!: Room_AddMessage_error CreateConvo_error JoinConvo_error)

theorem failed_operation_panics_witness:
  "PUT ''u/'' (Inr ''T'') room7x req7 [[], ''7''] = (Panicked (Error ''message id overwrite''), room7x) \<and>
   PUT ''u/'' (Inr ''T'') room7x (req7\<lparr>Body := Inl (Error ''unexpected EOF'')\<rparr>) [[], ''7''] =
     (Panicked (Error ''unexpected EOF''), room7x) \<and>
   GET ''u/'' ''page'' (Inr []) (room7\<lparr>Convos := (Convos room7)(''2166136261'' \<mapsto> convo7)\<rparr>) req7 [[], []] =
     (Panicked (Error ''convo id overwrite''), room7\<lparr>Convos := (Convos room7)(''2166136261'' \<mapsto> convo7)\<rparr>) \<and>
   fst (JoinConvo room77 (NewUser req7) ''7'') = Some (Error ''this is bad'') \<and>
   GET_join room77 req7 ''7'' = (Panicked (Error ''this is bad''), room77)"
proof -
  have id: "NewId (Inr ''T'') ''hi'' = Inr ''446255112''"
    by (simp add: NewId_def fnv32a_def decimal.simps digit_def)
  have id0: "NewId (Inr []) [] = Inr ''2166136261''"
    by (simp add: NewId_def fnv32a_def decimal.simps digit_def)
  have j: "fst (JoinConvo room77 (NewUser req7) ''7'') = Some (Error ''this is bad'')"
    by (simp add: JoinConvo_def room77_def convo7_def Let_def)
  show ?thesis
    using j
          failed_operation_panics [where ids = "[[], ''7'']" and r = room7x and req = req7
            and err = "Error ''message id overwrite''" and data = "''hi''" and url = "''u/''"
            and now = "Inr ''T''" and page = "''page''" and convoId = "''7''"]
          failed_operation_panics [where ids = "[[], ''7'']" and r = room7x
            and req = "req7\<lparr>Body := Inl (Error ''unexpected EOF'')\<rparr>"
            and err = "Error ''unexpected EOF''" and data = "''hi''" and url = "''u/''"
            and now = "Inr ''T''" and page = "''page''" and convoId = "''7''"]
          failed_operation_panics [where ids = "[[], []]"
            and r = "room7\<lparr>Convos := (Convos room7)(''2166136261'' \<mapsto> convo7)\<rparr>" and req = req7
            and err = "Error ''convo id overwrite''" and data = "''hi''" and url = "''u/''"
            and now = "Inr []" and page = "''page''" and convoId = "''7''"]
          failed_operation_panics [where ids = "[[], ''7'']" and r = room77 and req = req7
            and err = "Error ''this is bad''" and data = "''hi''" and url = "''u/''"
            and now = "Inr []" and page = "''page''" and convoId = "''7''"]
    by (simp add: id id0 IsConvo_def IPExists_def GetIP_def req7_def room7x_def room7_def
          convo7_def alice_def Room_AddMessage_def AddMessage_def CreateMessage_def CreateConvo_def)
qed

section \<open>Stopping the loop of Listen\<close>

lemma step_NilChan:
  assumes "step s e = Some s'"
      and "stop_chan s = NilChan" "loop s = Selecting" "\<not> pipe_closed s"
      and "closer s = AwaitNotify \<or> closer s = AtDeleteUser \<or> closer s = AtSendStop"
  shows "stop_chan s' = NilChan \<and> loop s' = Selecting \<and> \<not> pipe_closed s' \<and>
         (closer s' = AwaitNotify \<or> closer s' = AtDeleteUser \<or> closer s' = AtSendStop)"
  using assms by (cases e) (auto split: if_splits)

lemma run_NilChan:
  assumes "run s es = Some s'"
      and "stop_chan s = NilChan" "loop s = Selecting" "\<not> pipe_closed s"
      and "closer s = AwaitNotify \<or> closer s = AtDeleteUser \<or> closer s = AtSendStop"
  shows "loop s' = Selecting \<and> \<not> pipe_closed s' \<and>
         (closer s' = AwaitNotify \<or> closer s' = AtDeleteUser \<or> closer s' = AtSendStop)"
  using assms
proof (induction es arbitrary: s)
  case Nil
  then show ?case by simp
next
  case (Cons e es)
  from Cons.prems(1) obtain t where t: "step s e = Some t" and r: "run t es = Some s'"
    by (auto split: option.splits)
  from step_NilChan [OF t Cons.prems(2-5)] Cons.IH [OF r] show ?case by blast
qed

lemma step_close_after_stop:
  assumes "step s e = Some s'"
      and "(pipe_closed s \<longrightarrow> loop s = LoopReturned) \<and>
           (closer s = AtClosePipe \<or> closer s = CloserDone \<longrightarrow> loop s = LoopReturned)"
  shows "(pipe_closed s' \<longrightarrow> loop s' = LoopReturned) \<and>
         (closer s' = AtClosePipe \<or> closer s' = CloserDone \<longrightarrow> loop s' = LoopReturned)"
  using assms by (cases e) (auto split: if_splits)

lemma run_close_after_stop:
  assumes "run s es = Some s'"
      and "(pipe_closed s \<longrightarrow> loop s = LoopReturned) \<and>
           (closer s = AtClosePipe \<or> closer s = CloserDone \<longrightarrow> loop s = LoopReturned)"
  shows "pipe_closed s' \<longrightarrow> loop s' = LoopReturned"
  using assms
proof (induction es arbitrary: s)
  case Nil
  then show ?case by simp
next
  case (Cons e es)
  from Cons.prems(1) obtain t where t: "step s e = Some t" and r: "run t es = Some s'"
    by (auto split: option.splits)
  from Cons.IH [OF r step_close_after_stop [OF t Cons.prems(2)]] show ?case .
qed

lemma Pipe_closed_only_after_stop:
  "run (Listen_loop u) es = Some s \<Longrightarrow> pipe_closed s \<longrightarrow> loop s = LoopReturned"
  using run_close_after_stop [of "Listen_loop u" es s] by (simp add: Listen_loop_def)

lemma Listen_returns_when_Stop_is_made:
  "run (Listen_loop (alice\<lparr>UserStop := MadeChan\<rparr>))
       [ClientClosed, DeleteUserDone, StopRendezvous, ClosePipe] =
     Some \<lparr>closer = CloserDone, loop = LoopReturned, stop_chan = MadeChan,
           pipe_closed = True, flushed = []\<rparr>"
  by (simp add: Listen_loop_def alice_def)

text \<open>
  C8. The claim is that the loop returns once the client has disconnected. For a
  user made by \<open>NewUser\<close> the \<open>Stop\<close> channel is nil, so in every run of \<open>Listen\<close> the
  loop is still selecting, the closure never gets past its send on \<open>Stop\<close>, and
  \<open>Pipe\<close> is never closed.
\<close>

theorem Listen_never_returns:
  "run (Listen_loop (NewUser req)) es = Some s \<Longrightarrow>
     loop s = Selecting \<and> \<not> pipe_closed s \<and> closer s \<noteq> CloserDone"
  using run_NilChan [of "Listen_loop (NewUser req)" es s]
  by (auto simp: Listen_loop_def NewUser_def)

theorem Listen_never_returns_witness:
  "run (Listen_loop (NewUser req7)) [ClientClosed, DeleteUserDone] =
     Some \<lparr>closer = AtSendStop, loop = Selecting, stop_chan = NilChan,
           pipe_closed = False, flushed = []\<rparr> \<and>
   run (Listen_loop (NewUser req7)) [ClientClosed, DeleteUserDone, StopRendezvous] = None \<and>
   Listen_start (NewUser req7) = None"
  using Listen_never_returns [of req7 "[ClientClosed, DeleteUserDone]"
          "\<lparr>closer = AtSendStop, loop = Selecting, stop_chan = NilChan,
            pipe_closed = False, flushed = []\<rparr>"]
  by (simp add: Listen_loop_def NewUser_def req7_def Listen_start_def)

end
